theory Spec2Isabelle
  imports Complex_Main "HOL-Library.Char_ord" "HOL-Library.List_Lexorder"
    "HOL-Library.Product_Lexorder" "HOL-Library.Multiset" "HOL-Library.Sublist"
begin

section \<open>Data model of pipeline.py\<close>

text \<open>
  Python strings are modelled as \<open>string\<close> holding their UTF-8 bytes. UTF-8 is injective
  and commutes with concatenation, and byte-wise lexicographic order on UTF-8 is code
  point order, so string equality, dictionary lookup, the f-string key
  \<^verbatim>\<open>f"{date}_{venue}"\<close> and \<^verbatim>\<open>sorted\<close> behave on the bytes as they do on the
  code points. Slices are taken only of race identifiers, which are digit strings.

  The Japanese literals of the source are named here; each is the UTF-8 encoding of the
  literal in the source.
\<close>

abbreviation Sapporo :: string where
  "Sapporo \<equiv> [CHR 0xE6, CHR 0x9C, CHR 0xAD, CHR 0xE5, CHR 0xB9, CHR 0x8C]"
abbreviation Hakodate :: string where
  "Hakodate \<equiv> [CHR 0xE5, CHR 0x87, CHR 0xBD, CHR 0xE9, CHR 0xA4, CHR 0xA8]"
abbreviation Fukushima :: string where
  "Fukushima \<equiv> [CHR 0xE7, CHR 0xA6, CHR 0x8F, CHR 0xE5, CHR 0xB3, CHR 0xB6]"
abbreviation Niigata :: string where
  "Niigata \<equiv> [CHR 0xE6, CHR 0x96, CHR 0xB0, CHR 0xE6, CHR 0xBD, CHR 0x9F]"
abbreviation Tokyo :: string where
  "Tokyo \<equiv> [CHR 0xE6, CHR 0x9D, CHR 0xB1, CHR 0xE4, CHR 0xBA, CHR 0xAC]"
abbreviation Nakayama :: string where
  "Nakayama \<equiv> [CHR 0xE4, CHR 0xB8, CHR 0xAD, CHR 0xE5, CHR 0xB1, CHR 0xB1]"
abbreviation Chukyo :: string where
  "Chukyo \<equiv> [CHR 0xE4, CHR 0xB8, CHR 0xAD, CHR 0xE4, CHR 0xBA, CHR 0xAC]"
abbreviation Kyoto :: string where
  "Kyoto \<equiv> [CHR 0xE4, CHR 0xBA, CHR 0xAC, CHR 0xE9, CHR 0x83, CHR 0xBD]"
abbreviation Hanshin :: string where
  "Hanshin \<equiv> [CHR 0xE9, CHR 0x98, CHR 0xAA, CHR 0xE7, CHR 0xA5, CHR 0x9E]"
abbreviation Kokura :: string where
  "Kokura \<equiv> [CHR 0xE5, CHR 0xB0, CHR 0x8F, CHR 0xE5, CHR 0x80, CHR 0x89]"

text \<open>The surface markers: turf, dirt (short and long form) and obstacle.\<close>

abbreviation Shiba :: string where
  "Shiba \<equiv> [CHR 0xE8, CHR 0x8A, CHR 0x9D]"
abbreviation Da :: string where
  "Da \<equiv> [CHR 0xE3, CHR 0x83, CHR 0x80]"
abbreviation Daato :: string where
  "Daato \<equiv> [CHR 0xE3, CHR 0x83, CHR 0x80, CHR 0xE3, CHR 0x83, CHR 0xBC, CHR 0xE3, CHR 0x83, CHR 0x88]"
abbreviation Shougai :: string where
  "Shougai \<equiv> [CHR 0xE9, CHR 0x9A, CHR 0x9C]"

text \<open>
  The exceptions the modelled code can raise. A function that can raise returns
  \<open>py_error + 'a\<close>, the exception on the left.
\<close>

datatype py_error = KeyError string | TypeError | AttributeError

text \<open>
  A Python float stands for the number it denotes. The pipeline never computes with the
  condition values: it copies them and tests them against \<^verbatim>\<open>None\<close>. The join and the
  renderer are therefore polymorphic in the type \<open>'v\<close> of a non-null JSON value, and
  \<open>'v option\<close> is such a value or \<^verbatim>\<open>None\<close> (JSON null).
\<close>

type_synonym pyfloat = rat

text \<open>
  An entry of the condition table as \<^verbatim>\<open>json.load\<close> returns it: a JSON object, a
  dictionary from its keys to their values, or any other JSON value (a list, a number, a
  string, a boolean or null), on which a subscript with a string raises TypeError.
\<close>

datatype 'v entry = JObject "string \<rightharpoonup> 'v option" | JOther

text \<open>
  A historical run, the dictionary built by \<^verbatim>\<open>get_horse_results\<close> (lines 222-229) with
  the two keys \<^verbatim>\<open>link_cushion_data\<close> adds. \<open>cushion\<close> and \<open>moisture\<close> are read by
  the source only through \<^verbatim>\<open>r.get(...) is None\<close>, which does not tell a missing key
  from a null one: \<open>None\<close> stands for both.
\<close>

record 'v run =
  date :: string
  venue :: string
  surface :: string
  distance :: int
  race_name :: string
  result :: "int option"
  cushion :: "'v option"
  moisture :: "'v option"

text \<open>
  An element of \<^verbatim>\<open>js_races\<close> (lines 282-293): the eight keys of the run, in the same
  order, then \<^verbatim>\<open>cat\<close> and \<^verbatim>\<open>good\<close>.
\<close>

record 'v js_race = "'v run" +
  cat :: string
  good :: bool

text \<open>
  \<^verbatim>\<open>race_data['race_info']\<close> (lines 172-178). Field names shared by several records
  are written qualified below (\<open>run.surface\<close>, \<open>race_info.surface\<close>, \<open>race.surface\<close>),
  and a parameter whose name is a field's carries a prime (\<open>surface'\<close>).
\<close>

record race_info =
  race_id :: string
  race_name :: string
  venue :: string
  surface :: string
  distance :: int

text \<open>
  \<^verbatim>\<open>race_data\<close>: \<open>horses\<close> is a Python dictionary from the horse's name to its runs;
  the association list keeps the dictionary's iteration order (insertion order).
\<close>

record 'v race_data =
  race_info :: race_info
  horses :: "(string \<times> 'v run list) list"

section \<open>Venue codes (lines 29-33, 96-97)\<close>

definition VENUE_CODES :: "string \<rightharpoonup> string" where
  "VENUE_CODES = map_of
     [(''01'', Sapporo), (''02'', Hakodate), (''03'', Fukushima), (''04'', Niigata),
      (''05'', Tokyo), (''06'', Nakayama), (''07'', Chukyo), (''08'', Kyoto),
      (''09'', Hanshin), (''10'', Kokura)]"

text \<open>\<^verbatim>\<open>VENUE_CODES.get(venue_code, '?')\<close>\<close>

definition decode_venue :: "string \<Rightarrow> string" where
  "decode_venue venue_code = (case VENUE_CODES venue_code of Some v \<Rightarrow> v | None \<Rightarrow> ''?'')"

text \<open>
  \<^verbatim>\<open>rid[4:6]\<close>: a Python slice never raises; past the end of the string it is shorter or
  empty.
\<close>

definition venue_of_race_id :: "string \<Rightarrow> string" where
  "venue_of_race_id rid = decode_venue (take 2 (drop 4 rid))"

definition canonical_venues :: "string list" where
  "canonical_venues =
     [Sapporo, Hakodate, Fukushima, Niigata, Tokyo, Nakayama, Chukyo, Kyoto, Hanshin, Kokura]"

section \<open>The join: link_cushion_data (lines 237-257)\<close>

text \<open>\<^verbatim>\<open>entry['cushion']\<close>: KeyError on a missing key, TypeError on a non-object.\<close>

fun subscript :: "'v entry \<Rightarrow> string \<Rightarrow> py_error + 'v option" where
  "subscript (JObject d) k = (case d k of Some v \<Rightarrow> Inr v | None \<Rightarrow> Inl (KeyError k))"
| "subscript JOther k = Inl TypeError"

text \<open>
  \<^verbatim>\<open>entry.get(k)\<close>: the value, or None for a missing key; a value that is not a
  dictionary has no such method.
\<close>

fun entry_get :: "'v entry \<Rightarrow> string \<Rightarrow> py_error + 'v option" where
  "entry_get (JObject d) k = Inr (case d k of Some v \<Rightarrow> v | None \<Rightarrow> None)"
| "entry_get JOther k = Inl AttributeError"

text \<open>\<^verbatim>\<open>key = f"{date}_{venue}"\<close>\<close>

definition run_key :: "'v run \<Rightarrow> string" where
  "run_key r = run.date r @ ''_'' @ run.venue r"

text \<open>
  The body of the inner loop, for one run. The run record always has a surface, so the
  default of \<^verbatim>\<open>r.get('surface', ...)\<close> is never taken. The assignment to
  \<^verbatim>\<open>r['cushion']\<close> comes first: when it raises, the exception leaves the function
  with \<^verbatim>\<open>entry.get\<close> not reached.
\<close>

definition link_run :: "(string \<rightharpoonup> 'v entry) \<Rightarrow> 'v run \<Rightarrow> py_error + 'v run" where
  "link_run cushion_db r =
     (let surface = run.surface r;
          key = run_key r
      in case cushion_db key of
           Some entry \<Rightarrow>
             (case subscript entry ''cushion'' of
                Inl e \<Rightarrow> Inl e
              | Inr c \<Rightarrow>
                 (case (if surface = Da \<or> surface = Daato
                        then entry_get entry ''dirt_goal''
                        else entry_get entry ''turf_goal'') of
                    Inl e \<Rightarrow> Inl e
                  | Inr m \<Rightarrow> Inr (r\<lparr>cushion := c, moisture := m\<rparr>)))
         | None \<Rightarrow> Inr (r\<lparr>cushion := None, moisture := None\<rparr>))"

text \<open>The inner loop \<^verbatim>\<open>for r in races\<close>: the first exception ends it.\<close>

fun link_runs :: "(string \<rightharpoonup> 'v entry) \<Rightarrow> 'v run list \<Rightarrow> py_error + 'v run list" where
  "link_runs cushion_db [] = Inr []"
| "link_runs cushion_db (r # rs) =
     (case link_run cushion_db r of
        Inl e \<Rightarrow> Inl e
      | Inr r' \<Rightarrow> (case link_runs cushion_db rs of Inl e \<Rightarrow> Inl e | Inr rs' \<Rightarrow> Inr (r' # rs')))"

text \<open>The outer loop \<^verbatim>\<open>for horse_name, races in race_data['horses'].items()\<close>.\<close>

fun link_horses ::
  "(string \<rightharpoonup> 'v entry) \<Rightarrow> (string \<times> 'v run list) list \<Rightarrow> py_error + (string \<times> 'v run list) list"
where
  "link_horses cushion_db [] = Inr []"
| "link_horses cushion_db ((horse_name, races) # hs) =
     (case link_runs cushion_db races of
        Inl e \<Rightarrow> Inl e
      | Inr races' \<Rightarrow>
         (case link_horses cushion_db hs of
            Inl e \<Rightarrow> Inl e
          | Inr hs' \<Rightarrow> Inr ((horse_name, races') # hs')))"

definition link_cushion_data ::
  "'v race_data \<Rightarrow> (string \<rightharpoonup> 'v entry) \<Rightarrow> py_error + 'v race_data"
where
  "link_cushion_data rd cushion_db =
     (case link_horses cushion_db (horses rd) of
        Inl e \<Rightarrow> Inl e
      | Inr hs \<Rightarrow> Inr (rd\<lparr>horses := hs\<rparr>))"

text \<open>
  \<^verbatim>\<open>cushion_db = json.load(f)\<close> (lines 644-645), from the members of the table's
  top-level object in file order: the dictionary keeps the last value of a repeated key,
  and no member is inspected or dropped.
\<close>

definition load_cushion_db :: "(string \<times> 'v entry) list \<Rightarrow> (string \<rightharpoonup> 'v entry)" where
  "load_cushion_db members = map_of (rev members)"

section \<open>The renderer: generate_scatter_html (lines 261-296, 565-567)\<close>

text \<open>The category of a run (lines 275-280), against the target race's surface and distance.\<close>

definition categorize :: "string \<Rightarrow> int \<Rightarrow> 'v run \<Rightarrow> string" where
  "categorize surface' distance' r =
     (if run.surface r \<noteq> surface' then ''diff_surface''
      else if run.distance r = distance' then ''same_dist''
      else ''diff_dist'')"

text \<open>The dictionary appended to \<^verbatim>\<open>js_races\<close> (lines 282-293).\<close>

definition js_race_of :: "string \<Rightarrow> int \<Rightarrow> 'v run \<Rightarrow> 'v js_race" where
  "js_race_of surface' distance' r =
     \<lparr>date = run.date r,
      venue = run.venue r,
      surface = run.surface r,
      distance = run.distance r,
      race_name = run.race_name r,
      result = run.result r,
      cushion = run.cushion r,
      moisture = run.moisture r,
      cat = categorize surface' distance' r,
      good = (case run.result r of None \<Rightarrow> False | Some n \<Rightarrow> n \<le> 3)\<rparr>"

text \<open>The loop \<^verbatim>\<open>for r in races\<close> (lines 272-293); \<^verbatim>\<open>continue\<close> skips the run.\<close>

fun js_races_of :: "string \<Rightarrow> int \<Rightarrow> 'v run list \<Rightarrow> 'v js_race list" where
  "js_races_of surface' distance' [] = []"
| "js_races_of surface' distance' (r # rs) =
     (if run.cushion r = None \<or> run.moisture r = None
      then js_races_of surface' distance' rs
      else js_race_of surface' distance' r # js_races_of surface' distance' rs)"

record 'v js_horse =
  name :: string
  races :: "'v js_race list"

text \<open>The loop over \<^verbatim>\<open>race_data['horses'].items()\<close> (lines 270-294).\<close>

fun js_horses_of :: "string \<Rightarrow> int \<Rightarrow> (string \<times> 'v run list) list \<Rightarrow> 'v js_horse list" where
  "js_horses_of surface' distance' [] = []"
| "js_horses_of surface' distance' ((horse_name, races') # hs) =
     \<lparr>name = horse_name, races = js_races_of surface' distance' races'\<rparr>
       # js_horses_of surface' distance' hs"

text \<open>
  What the function embeds in the document's script and what it returns. \<open>HORSES\<close> is
  \<^verbatim>\<open>js_horses\<close>, which the source serialises with \<^verbatim>\<open>json.dumps\<close>; \<open>TX\<close>, \<open>TY\<close> and
  \<open>TDIST\<close> are the constants written beside it (lines 418-421). The serialisation and
  the fixed text of the page are functions of these values and are not modelled.
  \<open>stats\<close> is the returned triple (lines 565-567).
\<close>

record 'v artifact =
  HORSES :: "'v js_horse list"
  TX :: "'v option"
  TY :: "'v option"
  TDIST :: int
  stats :: "nat \<times> nat \<times> nat"

definition generate_scatter_html :: "'v race_data \<Rightarrow> 'v option \<Rightarrow> 'v option \<Rightarrow> 'v artifact" where
  "generate_scatter_html rd target_cushion target_moisture =
     (let info = race_info rd;
          surface = race_info.surface info;
          distance = race_info.distance info;
          js_horses = js_horses_of surface distance (horses rd);
          total_pts = sum_list (map (\<lambda>h. length (races h)) js_horses);
          horses_with_data = length (filter (\<lambda>h. races h \<noteq> []) js_horses)
      in \<lparr>HORSES = js_horses, TX = target_cushion, TY = target_moisture, TDIST = distance,
          stats = (total_pts, horses_with_data, length js_horses)\<rparr>)"

section \<open>The main pipeline (lines 594-601, 655-703)\<close>

text \<open>An element of the race list (lines 109-117); the link text is not used below.\<close>

record race =
  race_id :: string
  venue :: string
  race_num :: int
  race_name :: string
  surface :: string
  distance :: int

text \<open>
  The filters (lines 594-601). \<^verbatim>\<open>if args.venue\<close> and \<^verbatim>\<open>if args.race\<close> test
  truthiness: an absent option, an empty venue and race number 0 do not filter.
\<close>

definition select_races :: "string option \<Rightarrow> int option \<Rightarrow> race list \<Rightarrow> race list" where
  "select_races args_venue args_race races' =
     (let races = (case args_venue of
                     None \<Rightarrow> races'
                   | Some v \<Rightarrow> if v = [] then races' else filter (\<lambda>r. race.venue r = v) races');
          races = (case args_race of
                     None \<Rightarrow> races
                   | Some n \<Rightarrow> if n = 0 then races else filter (\<lambda>r. race.race_num r = n) races)
      in filter (\<lambda>r. race.surface r \<noteq> Shougai) races)"

text \<open>\<^verbatim>\<open>d.get(k, default)\<close>\<close>

definition get_default :: "(string \<rightharpoonup> 'a) \<Rightarrow> string \<Rightarrow> 'a \<Rightarrow> 'a" where
  "get_default d k dflt = (case d k of Some v \<Rightarrow> v | None \<Rightarrow> dflt)"

text \<open>
  The day's target point (lines 687-691). \<open>jra_live\<close> maps a venue to the dictionary of
  its measurements; a measurement the feed did not find is stored as None. The keys
  holding the measurement times are not read here and are left out.
\<close>

type_synonym live = "string \<rightharpoonup> (string \<rightharpoonup> pyfloat option)"

definition target_cushion_of :: "live \<Rightarrow> string \<Rightarrow> pyfloat option" where
  "target_cushion_of jra_live venue' =
     get_default (get_default jra_live venue' Map.empty) ''cushion'' (Some 9.5)"

definition target_moisture_of :: "live \<Rightarrow> string \<Rightarrow> string \<Rightarrow> pyfloat option" where
  "target_moisture_of jra_live venue' surface' =
     (if surface' = Da
      then get_default (get_default jra_live venue' Map.empty) ''dirt_moisture'' (Some 5.0)
      else get_default (get_default jra_live venue' Map.empty) ''turf_moisture'' (Some 12.0))"

text \<open>
  The race data of one race (lines 664-681): the cache file when there is one, in both
  branches that test for it; otherwise the scrape, whose result is written to the cache
  unless it is None. \<open>scrape\<close> stands for \<^verbatim>\<open>scrape_race_data\<close>, which reads the network.
\<close>

definition get_or_fetch ::
  "(string \<Rightarrow> 'v race_data option) \<Rightarrow> (string \<rightharpoonup> 'v race_data) \<Rightarrow> string
     \<Rightarrow> ('v race_data \<times> (string \<rightharpoonup> 'v race_data)) option"
where
  "get_or_fetch scrape cache rid =
     (case cache rid of
        Some rd \<Rightarrow> Some (rd, cache)
      | None \<Rightarrow>
         (case scrape rid of
            None \<Rightarrow> None
          | Some rd \<Rightarrow> Some (rd, cache(rid \<mapsto> rd))))"

text \<open>
  The loop \<^verbatim>\<open>for race in races\<close> (lines 655-703). It returns the cache left behind and,
  in order, each artifact written with the race whose iteration wrote it. An exception
  of the join leaves the loop and ends the run.
\<close>

fun process_races ::
  "(string \<Rightarrow> pyfloat race_data option) \<Rightarrow> (string \<rightharpoonup> pyfloat entry) \<Rightarrow> live
     \<Rightarrow> (string \<rightharpoonup> pyfloat race_data) \<Rightarrow> race list
     \<Rightarrow> py_error + ((string \<rightharpoonup> pyfloat race_data) \<times> (race \<times> pyfloat artifact) list)"
where
  "process_races scrape cushion_db jra_live cache [] = Inr (cache, [])"
| "process_races scrape cushion_db jra_live cache (race # rest) =
     (let rid = race.race_id race;
          venue = race.venue race;
          surface = race.surface race
      in case get_or_fetch scrape cache rid of
           None \<Rightarrow> process_races scrape cushion_db jra_live cache rest
         | Some (race_data, cache') \<Rightarrow>
            (case link_cushion_data race_data cushion_db of
               Inl e \<Rightarrow> Inl e
             | Inr race_data' \<Rightarrow>
                (let target_cushion = target_cushion_of jra_live venue;
                     target_moisture = target_moisture_of jra_live venue surface;
                     art = generate_scatter_html race_data' target_cushion target_moisture
                 in case process_races scrape cushion_db jra_live cache' rest of
                      Inl e \<Rightarrow> Inl e
                    | Inr (cache'', outs) \<Rightarrow> Inr (cache'', (race, art) # outs))))"

text \<open>
  An element of \<^verbatim>\<open>results_summary\<close> (line 703):
  \<^verbatim>\<open>(venue, race_num, race['race_name'], total, pts)\<close>.
\<close>

type_synonym summary = "string \<times> int \<times> string \<times> nat \<times> nat"

definition summary_of :: "race \<times> 'v artifact \<Rightarrow> summary" where
  "summary_of out =
     (case out of (race, art) \<Rightarrow>
        (case stats art of (pts, with_data, total') \<Rightarrow>
           (race.venue race, race.race_num race, race.race_name race, total', pts)))"

text \<open>
  The pipeline from the race list on: the filters, the loop, the summary handed to the
  index builder.
\<close>

definition run_pipeline ::
  "string option \<Rightarrow> int option \<Rightarrow> (string \<Rightarrow> pyfloat race_data option)
     \<Rightarrow> (string \<rightharpoonup> pyfloat entry) \<Rightarrow> live \<Rightarrow> (string \<rightharpoonup> pyfloat race_data) \<Rightarrow> race list
     \<Rightarrow> py_error + ((race \<times> pyfloat artifact) list \<times> summary list)"
where
  "run_pipeline args_venue args_race scrape cushion_db jra_live cache races' =
     (case process_races scrape cushion_db jra_live cache
             (select_races args_venue args_race races') of
        Inl e \<Rightarrow> Inl e
      | Inr (cache', outs) \<Rightarrow> Inr (outs, map summary_of outs))"

section \<open>The index: generate_index (lines 723-772)\<close>

type_synonym row = "int \<times> string \<times> nat \<times> nat"

text \<open>The grouping loop (lines 725-729): each venue's rows in the order of the summary.\<close>

fun group_venues :: "summary list \<Rightarrow> (string \<rightharpoonup> row list) \<Rightarrow> (string \<rightharpoonup> row list)" where
  "group_venues [] venues = venues"
| "group_venues ((venue', row) # rest) venues =
     group_venues rest
       (venues(venue' \<mapsto> (case venues venue' of None \<Rightarrow> [] | Some rows \<Rightarrow> rows) @ [row]))"

text \<open>The hardcoded list of line 763.\<close>

definition INDEX_ORDER :: "string list" where
  "INDEX_ORDER =
     [Tokyo, Kyoto, Kokura, Nakayama, Hanshin, Chukyo, Niigata, Fukushima, Hakodate, Sapporo]"

text \<open>
  The emitting loop (lines 763-772). A section of the page is the venue of its heading,
  the heading's condition text and its links in order; \<^verbatim>\<open>sorted\<close> orders the rows as
  tuples, race number first. \<open>venue_info\<close> is the dictionary of lines 731-736, whose
  texts format floats and are taken as given.
\<close>

fun emit_sections ::
  "(string \<rightharpoonup> row list) \<Rightarrow> (string \<rightharpoonup> string) \<Rightarrow> string list
     \<Rightarrow> (string \<times> string \<times> row list) list"
where
  "emit_sections venues venue_info [] = []"
| "emit_sections venues venue_info (venue' # vs) =
     (case venues venue' of
        None \<Rightarrow> emit_sections venues venue_info vs
      | Some rows \<Rightarrow>
          (venue', get_default venue_info venue' [], sort rows)
            # emit_sections venues venue_info vs)"

definition generate_index ::
  "summary list \<Rightarrow> (string \<rightharpoonup> string) \<Rightarrow> (string \<times> string \<times> row list) list"
where
  "generate_index results_summary venue_info =
     emit_sections (group_venues results_summary Map.empty) venue_info INDEX_ORDER"

section \<open>Example inputs\<close>

text \<open>
  The inputs at which the theorems below are instantiated: the race and the table entry
  of the specification's examples (a turf race over 1600 m at Tokyo on 20260215).
\<close>

definition ex_info :: race_info where
  "ex_info = \<lparr>race_info.race_id = ''202605010811'', race_info.race_name = ''Main'',
                race_info.venue = Tokyo, race_info.surface = Shiba,
                race_info.distance = 1600\<rparr>"

definition ex_run :: "pyfloat run" where
  "ex_run = \<lparr>date = ''20260215'', venue = Tokyo, surface = Shiba, distance = 1600,
               race_name = ''Trial'', result = Some 2, cushion = None, moisture = None\<rparr>"

text \<open>Race data after a join: three joined runs, one unmatched, one with no moisture.\<close>

definition ex_linked :: "pyfloat race_data" where
  "ex_linked = \<lparr>race_info = ex_info,
     horses = [(''Alpha'',
                 [ex_run\<lparr>cushion := Some 9.8, moisture := Some 11.2\<rparr>,
                  ex_run\<lparr>run.surface := Da, result := Some 5, cushion := Some 9.8,
                           moisture := Some 4.5\<rparr>,
                  ex_run\<lparr>run.date := ''20250101''\<rparr>,
                  ex_run\<lparr>run.distance := 2000, result := None, cushion := Some 9.1,
                           moisture := Some 13\<rparr>,
                  ex_run\<lparr>run.surface := Da, cushion := Some 9.8\<rparr>]),
               (''Beta'', [])]\<rparr>"

section \<open>Venue decoding\<close>

lemma VENUE_CODES_dom:
  "dom VENUE_CODES =
     {''01'', ''02'', ''03'', ''04'', ''05'', ''06'', ''07'', ''08'', ''09'', ''10''}"
  unfolding VENUE_CODES_def by (simp add: dom_map_of_conv_image_fst)

lemma VENUE_CODES_ran: "VENUE_CODES code = Some v \<Longrightarrow> v \<in> set canonical_venues"
  unfolding VENUE_CODES_def canonical_venues_def
  by (auto split: if_splits)

text \<open>
  C7. Venue decoding is a total function from code strings to strings, so it returns
  for every code and has no exception to raise. The code \<open>05\<close> decodes to Tokyo, a code
  of the ten-entry mapping decodes to one of the ten canonical names, and every other
  code decodes to the sentinel \<open>?\<close>, which is none of the ten names. The race list
  decodes the slice \<^verbatim>\<open>rid[4:6]\<close> of the race identifier, whatever its length.
\<close>

theorem decode_venue_total:
  "decode_venue ''05'' = Tokyo
   \<and> (code \<notin> {''01'', ''02'', ''03'', ''04'', ''05'', ''06'', ''07'', ''08'', ''09'', ''10''}
        \<longrightarrow> decode_venue code = ''?'')
   \<and> (code \<in> {''01'', ''02'', ''03'', ''04'', ''05'', ''06'', ''07'', ''08'', ''09'', ''10''}
        \<longrightarrow> decode_venue code \<in> set canonical_venues)
   \<and> venue_of_race_id rid = decode_venue (take 2 (drop 4 rid))
   \<and> length canonical_venues = 10 \<and> distinct canonical_venues
   \<and> ''?'' \<notin> set canonical_venues"
proof -
  have a: "decode_venue ''05'' = Tokyo"
    by (simp add: decode_venue_def VENUE_CODES_def)
  have b: "code \<notin> dom VENUE_CODES \<Longrightarrow> decode_venue code = ''?''"
    by (auto simp: decode_venue_def split: option.splits)
  have c: "code \<in> dom VENUE_CODES \<Longrightarrow> decode_venue code \<in> set canonical_venues"
    by (auto simp: decode_venue_def VENUE_CODES_ran split: option.splits)
  have d: "length canonical_venues = 10 \<and> distinct canonical_venues
           \<and> ''?'' \<notin> set canonical_venues"
    by (simp add: canonical_venues_def)
  show ?thesis using a b c d unfolding VENUE_CODES_dom
    by (simp add: venue_of_race_id_def)
qed

theorem decode_venue_total_witness:
  "''11'' \<notin> {''01'', ''02'', ''03'', ''04'', ''05'', ''06'', ''07'', ''08'', ''09'', ''10''}
   \<and> decode_venue ''11'' = ''?''
   \<and> ''08'' \<in> {''01'', ''02'', ''03'', ''04'', ''05'', ''06'', ''07'', ''08'', ''09'', ''10''}
   \<and> decode_venue ''08'' = Kyoto
   \<and> venue_of_race_id ''202605010811'' = Tokyo
   \<and> venue_of_race_id ''2026'' = ''?''"
  using decode_venue_total [of "''11''" "''202605010811''"]
    decode_venue_total [of "''08''" "''2026''"]
  by (simp add: decode_venue_def VENUE_CODES_def)

section \<open>The renderer\<close>

lemma js_races_of_eq:
  "js_races_of s d rs =
     map (js_race_of s d) (filter (\<lambda>r. run.cushion r \<noteq> None \<and> run.moisture r \<noteq> None) rs)"
  by (induction rs) auto

lemma js_horses_of_eq:
  "js_horses_of s d hs = map (\<lambda>(n, rs). \<lparr>name = n, races = js_races_of s d rs\<rparr>) hs"
  by (induction hs) auto

lemma truncate_js_race_of: "run.truncate (js_race_of s d r) = r"
  by (simp add: js_race_of_def run.truncate_def)

lemma HORSES_eq:
  "HORSES (generate_scatter_html rd tc tm) =
     js_horses_of (race_info.surface (race_info rd)) (race_info.distance (race_info rd))
       (horses rd)"
  by (simp add: generate_scatter_html_def Let_def)

text \<open>
  C4. Let \<open>h\<close> be a run of horse \<open>n\<close> with cushion and moisture both non-null. The
  embedded data holds an element \<open>j\<close> for it, under horse \<open>n\<close>, whose eight run keys
  are those of \<open>h\<close> and whose category is one of the three category strings. The
  category is \<open>diff_surface\<close> exactly when the surfaces differ, whatever the distances;
  \<open>same_dist\<close> exactly when the surfaces agree and the distances are equal; and
  \<open>diff_dist\<close> exactly when the surfaces agree and the distances differ. The three
  conditions exclude one another, so exactly one category is assigned.
\<close>

theorem classify_precedence:
  assumes "(n, rs) \<in> set (horses rd)" and "h \<in> set rs"
    and "run.cushion h \<noteq> None" and "run.moisture h \<noteq> None"
  shows "\<exists>jh j. jh \<in> set (HORSES (generate_scatter_html rd tc tm)) \<and> name jh = n
           \<and> j \<in> set (races jh) \<and> run.truncate j = h
           \<and> cat j \<in> {''same_dist'', ''diff_dist'', ''diff_surface''}
           \<and> (cat j = ''diff_surface'' \<longleftrightarrow> run.surface h \<noteq> race_info.surface (race_info rd))
           \<and> (cat j = ''same_dist'' \<longleftrightarrow> run.surface h = race_info.surface (race_info rd)
                  \<and> run.distance h = race_info.distance (race_info rd))
           \<and> (cat j = ''diff_dist'' \<longleftrightarrow> run.surface h = race_info.surface (race_info rd)
                  \<and> run.distance h \<noteq> race_info.distance (race_info rd))"
proof -
  let ?s = "race_info.surface (race_info rd)" and ?d = "race_info.distance (race_info rd)"
  let ?jh = "\<lparr>name = n, races = js_races_of ?s ?d rs\<rparr>"
  let ?j = "js_race_of ?s ?d h"
  have 1: "?jh \<in> set (HORSES (generate_scatter_html rd tc tm))"
    using assms(1) by (force simp: HORSES_eq js_horses_of_eq)
  have 2: "?j \<in> set (races ?jh)"
    using assms(2-4) by (simp add: js_races_of_eq)
  have 3: "run.truncate ?j = h" by (rule truncate_js_race_of)
  have 4: "cat ?j = categorize ?s ?d h" by (simp add: js_race_of_def)
  have 5: "categorize ?s ?d h \<in> {''same_dist'', ''diff_dist'', ''diff_surface''}"
    "categorize ?s ?d h = ''diff_surface'' \<longleftrightarrow> run.surface h \<noteq> ?s"
    "categorize ?s ?d h = ''same_dist'' \<longleftrightarrow> run.surface h = ?s \<and> run.distance h = ?d"
    "categorize ?s ?d h = ''diff_dist'' \<longleftrightarrow> run.surface h = ?s \<and> run.distance h \<noteq> ?d"
    by (simp_all add: categorize_def)
  show ?thesis
    apply (rule exI [of _ ?jh], rule exI [of _ ?j])
    using 1 2 3 5 unfolding 4 by simp
qed

theorem classify_precedence_witness:
  "(''Alpha'', snd (hd (horses ex_linked))) \<in> set (horses ex_linked)
   \<and> ex_run\<lparr>run.surface := Da, result := Some 5, cushion := Some 9.8, moisture := Some 4.5\<rparr>
        \<in> set (snd (hd (horses ex_linked)))
   \<and> (\<exists>jh j. jh \<in> set (HORSES (generate_scatter_html ex_linked (Some 9.5) (Some 12)))
           \<and> name jh = ''Alpha'' \<and> j \<in> set (races jh)
           \<and> run.truncate j = ex_run\<lparr>run.surface := Da, result := Some 5,
                                       cushion := Some 9.8, moisture := Some 4.5\<rparr>
           \<and> cat j = ''diff_surface'')
   \<and> map (\<lambda>h. map cat (races h)) (HORSES (generate_scatter_html ex_linked (Some 9.5) (Some 12)))
        = [[''same_dist'', ''diff_surface'', ''diff_dist''], []]"
proof -
  let ?h = "ex_run\<lparr>run.surface := Da, result := Some 5, cushion := Some 9.8,
                    moisture := Some 4.5\<rparr>"
  have h1: "(''Alpha'', snd (hd (horses ex_linked))) \<in> set (horses ex_linked)"
    by (simp add: ex_linked_def)
  have h2: "?h \<in> set (snd (hd (horses ex_linked)))"
    by (simp add: ex_linked_def)
  have h3: "run.cushion ?h \<noteq> None" and h4: "run.moisture ?h \<noteq> None"
    by simp_all
  have s: "run.surface ?h \<noteq> race_info.surface (race_info ex_linked)"
    by (simp add: ex_linked_def ex_info_def ex_run_def)
  from classify_precedence [OF h1 h2 h3 h4, of "Some 9.5" "Some 12"] s
  have e: "\<exists>jh j. jh \<in> set (HORSES (generate_scatter_html ex_linked (Some 9.5) (Some 12)))
           \<and> name jh = ''Alpha'' \<and> j \<in> set (races jh) \<and> run.truncate j = ?h
           \<and> cat j = ''diff_surface''"
    by blast
  have v: "map (\<lambda>h. map cat (races h))
             (HORSES (generate_scatter_html ex_linked (Some 9.5) (Some 12)))
        = [[''same_dist'', ''diff_surface'', ''diff_dist''], []]"
    by (simp add: generate_scatter_html_def Let_def ex_linked_def ex_info_def ex_run_def
        js_race_of_def categorize_def)
  show ?thesis using h1 h2 e v by blast
qed

text \<open>
  C5. The embedded data has one element per horse, under the horse's name, and the runs
  embedded for a horse (each read back through its eight run keys) are exactly the
  horse's runs whose cushion and moisture are both non-null; no embedded run has a null
  cushion or a null moisture.
\<close>

theorem renderer_exclusion:
  "map name (HORSES (generate_scatter_html rd tc tm)) = map fst (horses rd)
   \<and> map (\<lambda>h. map run.truncate (races h)) (HORSES (generate_scatter_html rd tc tm))
       = map (\<lambda>(n, rs). filter (\<lambda>r. run.cushion r \<noteq> None \<and> run.moisture r \<noteq> None) rs)
           (horses rd)
   \<and> (\<forall>h \<in> set (HORSES (generate_scatter_html rd tc tm)). \<forall>j \<in> set (races h).
         run.cushion j \<noteq> None \<and> run.moisture j \<noteq> None)"
proof -
  let ?s = "race_info.surface (race_info rd)" and ?d = "race_info.distance (race_info rd)"
  have a: "map name (js_horses_of ?s ?d (horses rd)) = map fst (horses rd)"
    by (simp add: js_horses_of_eq case_prod_unfold comp_def)
  have b: "map (\<lambda>h. map run.truncate (races h)) (js_horses_of ?s ?d (horses rd))
       = map (\<lambda>(n, rs). filter (\<lambda>r. run.cushion r \<noteq> None \<and> run.moisture r \<noteq> None) rs)
           (horses rd)"
    by (simp add: js_horses_of_eq js_races_of_eq case_prod_unfold comp_def
        truncate_js_race_of)
  have c: "\<forall>h \<in> set (js_horses_of ?s ?d (horses rd)). \<forall>j \<in> set (races h).
         run.cushion j \<noteq> None \<and> run.moisture j \<noteq> None"
    by (auto simp: js_horses_of_eq js_races_of_eq js_race_of_def)
  show ?thesis using a b c by (simp only: HORSES_eq)
qed

theorem renderer_exclusion_witness:
  "map (\<lambda>h. (name h, map run.truncate (races h)))
       (HORSES (generate_scatter_html ex_linked (Some 9.5) (Some 12)))
     = [(''Alpha'', [ex_run\<lparr>cushion := Some 9.8, moisture := Some 11.2\<rparr>,
                  ex_run\<lparr>run.surface := Da, result := Some 5, cushion := Some 9.8,
                           moisture := Some 4.5\<rparr>,
                  ex_run\<lparr>run.distance := 2000, result := None, cushion := Some 9.1,
                           moisture := Some 13\<rparr>]),
        (''Beta'', [])]
   \<and> list_all (\<lambda>h. list_all (\<lambda>j. run.cushion j \<noteq> None \<and> run.moisture j \<noteq> None) (races h))
        (HORSES (generate_scatter_html ex_linked (Some 9.5) (Some 12)))"
proof -
  have v: "map (\<lambda>h. (name h, map run.truncate (races h)))
       (HORSES (generate_scatter_html ex_linked (Some 9.5) (Some 12)))
     = [(''Alpha'', [ex_run\<lparr>cushion := Some 9.8, moisture := Some 11.2\<rparr>,
                  ex_run\<lparr>run.surface := Da, result := Some 5, cushion := Some 9.8,
                           moisture := Some 4.5\<rparr>,
                  ex_run\<lparr>run.distance := 2000, result := None, cushion := Some 9.1,
                           moisture := Some 13\<rparr>]),
        (''Beta'', [])]"
    by (simp add: generate_scatter_html_def Let_def ex_linked_def ex_info_def ex_run_def
        js_race_of_def run.truncate_def)
  from renderer_exclusion [of ex_linked "Some 9.5" "Some 12"]
  have "list_all (\<lambda>h. list_all (\<lambda>j. run.cushion j \<noteq> None \<and> run.moisture j \<noteq> None) (races h))
        (HORSES (generate_scatter_html ex_linked (Some 9.5) (Some 12)))"
    by (simp add: list_all_iff)
  with v show ?thesis by simp
qed



end
